theory Spec2Isabelle
  imports Complex_Main
begin

section \<open>Strings as the content script uses them\<close>

text \<open>
  A string is a list of characters; every character stands for one UTF-16 code unit
  below 256, so \<open>length\<close> is the \<open>length\<close> of the script's strings.
  \<open>trim\<close> strips the white space and line terminators of that range from
  both ends, \<open>substring\<close> from position 0 is \<open>take\<close>, and
  \<open>toLowerCase\<close> maps the upper-case letters of that range.
\<close>

definition is_space :: "char \<Rightarrow> bool" where
  "is_space c = (of_char c \<in> {9, 10, 11, 12, 13, 32, 160 :: nat})"

definition trim :: "string \<Rightarrow> string" where
  "trim s = rev (dropWhile is_space (rev (dropWhile is_space s)))"

definition substring0 :: "string \<Rightarrow> nat \<Rightarrow> string" where
  "substring0 s n = take n s"

definition lower_char :: "char \<Rightarrow> char" where
  "lower_char c =
     (let n = (of_char c :: nat)
      in if (65 \<le> n \<and> n \<le> 90) \<or> (192 \<le> n \<and> n \<le> 222 \<and> n \<noteq> 215)
         then char_of (n + 32) else c)"

definition toLowerCase :: "string \<Rightarrow> string" where
  "toLowerCase s = map lower_char s"

text \<open>\<open>Array.prototype.join\<close> on a list of strings.\<close>

fun join :: "string \<Rightarrow> string list \<Rightarrow> string" where
  "join sep [] = []"
| "join sep [s] = s"
| "join sep (s # t # ss) = s @ sep @ join sep (t # ss)"

text \<open>
  A property or attribute that may be absent (\<open>null\<close> or \<open>undefined\<close>) is
  a \<open>string option\<close>. It is truthy when it is present and not the empty string.
\<close>

fun truthy :: "string option \<Rightarrow> bool" where
  "truthy None = False"
| "truthy (Some s) = (s \<noteq> [])"

fun str_or :: "string option \<Rightarrow> string \<Rightarrow> string" where
  "str_or None d = d"
| "str_or (Some s) d = (if s = [] then d else s)"

section \<open>The page as the scanner reads it\<close>

record rect =
  rect_x :: real
  rect_y :: real
  rect_width :: real
  rect_height :: real

text \<open>The derived sides of a \<open>DOMRect\<close>.\<close>

definition rect_top :: "rect \<Rightarrow> real" where
  "rect_top r = min (rect_y r) (rect_y r + rect_height r)"

definition rect_bottom :: "rect \<Rightarrow> real" where
  "rect_bottom r = max (rect_y r) (rect_y r + rect_height r)"

definition rect_left :: "rect \<Rightarrow> real" where
  "rect_left r = min (rect_x r) (rect_x r + rect_width r)"

text \<open>
  One DOM element, with the properties and attributes the script reads from it:
  \<open>tagName\<close>, \<open>id\<close>, \<open>classList\<close>, \<open>textContent\<close>, \<open>value\<close>,
  \<open>alt\<close>, \<open>title\<close>, \<open>type\<close>, the attributes \<open>data-testid\<close>,
  \<open>aria-label\<close> and \<open>placeholder\<close>, the result of
  \<open>getBoundingClientRect\<close>, three properties of its computed style, and whether
  the node has a \<open>click\<close> method: an element of the hypertext namespace has one,
  an SVG element has none.
\<close>

record element =
  el_tagName :: string
  el_id :: string
  el_classList :: "string list"
  el_testid :: "string option"
  el_textContent :: string
  el_aria_label :: "string option"
  el_placeholder :: "string option"
  el_value :: "string option"
  el_alt :: "string option"
  el_title :: "string option"
  el_type :: "string option"
  el_rect :: rect
  style_display :: string
  style_visibility :: string
  style_opacity :: string
  el_has_click :: bool

text \<open>
  \<open>document.querySelector\<close> either rejects the selector with a syntax error,
  finds no node, or returns the first matching node.
\<close>

datatype query_result = Invalid_Selector | No_Match | Match element

text \<open>
  The page at one moment. \<open>candidates\<close> is the node list that
  \<open>document.querySelectorAll\<close> returns for the scanner's fixed category selector, in
  document order; \<open>querySelector\<close> is the browser's resolution of a selector
  against the document. Both belong to the browser and are taken as given.
\<close>

record page =
  candidates :: "element list"
  innerHeight :: real
  scrollX :: real
  scrollY :: real
  querySelector :: "string \<Rightarrow> query_result"
  href :: string

section \<open>Selector Generator\<close>

definition generateSelector :: "element \<Rightarrow> string" where
  "generateSelector el =
     (if el_id el \<noteq> [] then ''#'' @ el_id el
      else if truthy (el_testid el)
        then ''[data-testid=\"'' @ str_or (el_testid el) [] @ ''\"]''
      else if length (el_classList el) > 0 then ''.'' @ join ''.'' (el_classList el)
      else toLowerCase (el_tagName el))"

section \<open>Element Scanner\<close>

record bounds =
  b_x :: real
  b_y :: real
  b_width :: real
  b_height :: real

record descriptor =
  d_index :: nat
  d_tag :: string
  d_text :: string
  d_type :: string
  d_id :: string
  d_classes :: "string list"
  d_selector :: string
  d_bounds :: bounds

definition isVisible :: "page \<Rightarrow> element \<Rightarrow> bool" where
  "isVisible p el =
     (style_display el \<noteq> ''none'' \<and>
      style_visibility el \<noteq> ''hidden'' \<and>
      style_opacity el \<noteq> ''0'' \<and>
      rect_width (el_rect el) > 0 \<and>
      rect_height (el_rect el) > 0 \<and>
      rect_top (el_rect el) < innerHeight p \<and>
      rect_bottom (el_rect el) > 0)"

text \<open>The label chain of the scanner: the first truthy source wins.\<close>

definition elementText :: "element \<Rightarrow> string" where
  "elementText el =
     (if el_textContent el \<noteq> [] \<and> trim (el_textContent el) \<noteq> []
        then substring0 (trim (el_textContent el)) 100
      else if truthy (el_aria_label el) then str_or (el_aria_label el) []
      else if truthy (el_placeholder el) then str_or (el_placeholder el) []
      else if truthy (el_value el) then str_or (el_value el) []
      else if truthy (el_alt el) then str_or (el_alt el) []
      else if truthy (el_title el) then str_or (el_title el) []
      else [])"

text \<open>
  The object pushed for one visible element; \<open>index\<close> is the second argument of the
  \<open>forEach\<close> callback. The sums of the bounds are taken over the reals; the rounding
  of the script's floating-point addition is not modelled.
\<close>

definition describe :: "page \<Rightarrow> nat \<Rightarrow> element \<Rightarrow> descriptor" where
  "describe p index el =
     \<lparr> d_index = index,
       d_tag = toLowerCase (el_tagName el),
       d_text = elementText el,
       d_type = str_or (el_type el) [],
       d_id = el_id el,
       d_classes = el_classList el,
       d_selector = generateSelector el,
       d_bounds = \<lparr> b_x = rect_x (el_rect el) + scrollX p,
                    b_y = rect_y (el_rect el) + scrollY p,
                    b_width = rect_width (el_rect el),
                    b_height = rect_height (el_rect el) \<rparr> \<rparr>"

text \<open>
  The \<open>forEach\<close> loop over the candidates: \<open>index\<close> counts every candidate, and
  \<open>elements\<close> is the array the visible ones are pushed to.
\<close>

fun scan_loop :: "page \<Rightarrow> nat \<Rightarrow> element list \<Rightarrow> descriptor list \<Rightarrow> descriptor list" where
  "scan_loop p index [] elements = elements"
| "scan_loop p index (el # rest) elements =
     (if \<not> isVisible p el then scan_loop p (Suc index) rest elements
      else scan_loop p (Suc index) rest (elements @ [describe p index el]))"

definition captureDomElements :: "page \<Rightarrow> descriptor list" where
  "captureDomElements p = take 50 (scan_loop p 0 (candidates p) [])"

section \<open>Session state and the control surface\<close>

text \<open>
  The value of a field of a parsed JSON object, as far as the executor looks at it:
  \<open>undefined\<close> for a missing field, \<open>null\<close>, a boolean, a number, or any other
  value (a string, an array, an object). Such another value is given by the two
  conversions the script applies to it: its conversion to a number (\<open>None\<close> for
  \<open>NaN\<close>) and the array index that its property key denotes, if it denotes one.
\<close>

datatype js_value =
    Undefined
  | Null
  | Boolean bool
  | Number real
  | Other "real option" "nat option"

text \<open>The conversion of \<open>idx < elements.length\<close> on its left operand.\<close>

fun to_number :: "js_value \<Rightarrow> real option" where
  "to_number Undefined = None"
| "to_number Null = Some 0"
| "to_number (Boolean b) = Some (if b then 1 else 0)"
| "to_number (Number x) = Some x"
| "to_number (Other n k) = n"

definition less_than_length :: "js_value \<Rightarrow> nat \<Rightarrow> bool" where
  "less_than_length v n = (case to_number v of None \<Rightarrow> False | Some x \<Rightarrow> x < real n)"

text \<open>
  The array index that the property key of a value denotes: the keys \<open>undefined\<close>,
  \<open>null\<close>, \<open>true\<close> and \<open>false\<close> denote none, and the key of a number denotes one
  when the number is a non-negative integer.
\<close>

fun array_index :: "js_value \<Rightarrow> nat option" where
  "array_index Undefined = None"
| "array_index Null = None"
| "array_index (Boolean b) = None"
| "array_index (Number x) = (if 0 \<le> x \<and> x = of_int \<lfloor>x\<rfloor> then Some (nat \<lfloor>x\<rfloor>) else None)"
| "array_index (Other n k) = k"

text \<open>\<open>elements[idx]\<close>: \<open>None\<close> is \<open>undefined\<close>.\<close>

definition element_at :: "'a list \<Rightarrow> js_value \<Rightarrow> 'a option" where
  "element_at elements idx =
     (case array_index idx of
        None \<Rightarrow> None
      | Some k \<Rightarrow> if k < length elements then Some (elements ! k) else None)"

text \<open>
  A suggested action as the backend returns it. Every field may be missing from the
  JSON object; \<open>element_index\<close> is whatever value the backend has put there.
\<close>

record action =
  a_label :: "string option"
  a_description :: "string option"
  a_confidence :: "real option"
  a_element_index :: js_value

text \<open>
  The backend's response: \<open>session_id\<close> and the \<open>analysis\<close> object with its
  \<open>actions\<close>. A missing or \<open>null\<close> part is \<open>None\<close>.
\<close>

record analysis =
  an_actions :: "action list option"

record response =
  r_session_id :: "string option"
  r_analysis :: "analysis option"

text \<open>
  The three labels the script writes into the analyze button: the one of the panel's
  markup, the loading label and the failure label.
\<close>

datatype btn_label = Label_Analyze | Label_Analyzing | Label_Failed

text \<open>
  The content of the panel's \<open>#a11y-actions\<close> container: the analyze button (label,
  disabled) of the initial markup, the rendered action buttons (each with its
  \<open>primary\<close> mark), the "no actions" message, or the failure message that names the
  backend address. Only the first holds a node with the id \<open>analyze-btn\<close>.
\<close>

datatype actions_area =
    Analyze_Button btn_label bool
  | Action_Buttons "(action \<times> bool) list"
  | No_Actions_Message
  | Failure_Message string

text \<open>What a pending timer does when it fires.\<close>

datatype task = Collapse_Panel | Remove_Highlight nat | Remove_Notification nat

text \<open>
  The overlay object and the nodes it owns in the document: \<open>config\<close>, \<open>state\<close>,
  the panel's \<open>active\<close> class, the actions container, the highlight boxes and
  notifications attached to the body (each node with a fresh number), the pending
  timers with their delay in milliseconds, and the log of synthetic clicks.
\<close>

record overlay =
  backendUrl :: string
  wakeWord :: string
  isActive :: bool
  sessionId :: "string option"
  currentPage :: "analysis option"
  actions :: "action list"
  panel_active :: bool
  area :: actions_area
  highlights :: "(nat \<times> bounds) list"
  notifications :: "(nat \<times> string) list"
  timers :: "(nat \<times> task) list"
  next_node :: nat
  clicks :: "element list"

definition new_overlay :: overlay where
  "new_overlay =
     \<lparr> backendUrl = ''http://localhost:8000'',
       wakeWord = ''hey assistant'',
       isActive = False,
       sessionId = None,
       currentPage = None,
       actions = [],
       panel_active = False,
       area = Analyze_Button Label_Analyze False,
       highlights = [],
       notifications = [],
       timers = [],
       next_node = 0,
       clicks = [] \<rparr>"

datatype error =
    LoadFailed | CaptureFailed | NetworkError | BackendError nat | JsonError
  | TypeError | SyntaxError

section \<open>Timers and notifications\<close>

definition setTimeout :: "nat \<Rightarrow> task \<Rightarrow> overlay \<Rightarrow> overlay" where
  "setTimeout delay t s = s\<lparr>timers := timers s @ [(delay, t)]\<rparr>"

definition showNotification :: "string \<Rightarrow> overlay \<Rightarrow> overlay" where
  "showNotification message s =
     setTimeout 3000 (Remove_Notification (next_node s))
       (s\<lparr>notifications := notifications s @ [(next_node s, message)],
          next_node := Suc (next_node s)\<rparr>)"

fun run_task :: "task \<Rightarrow> overlay \<Rightarrow> overlay" where
  "run_task Collapse_Panel s = s\<lparr>panel_active := False\<rparr>"
| "run_task (Remove_Highlight n) s =
     s\<lparr>highlights := filter (\<lambda>h. fst h \<noteq> n) (highlights s)\<rparr>"
| "run_task (Remove_Notification n) s =
     s\<lparr>notifications := filter (\<lambda>m. fst m \<noteq> n) (notifications s)\<rparr>"

text \<open>The \<open>k\<close>-th pending timer fires: it leaves the queue and its task runs.\<close>

definition fire :: "nat \<Rightarrow> overlay \<Rightarrow> overlay" where
  "fire k s =
     (if k < length (timers s)
      then run_task (snd (timers s ! k))
             (s\<lparr>timers := take k (timers s) @ drop (Suc k) (timers s)\<rparr>)
      else s)"

section \<open>Action Executor\<close>

text \<open>
  A throw inside a \<open>try\<close> block is \<open>Inl\<close> of the error and the state reached when it
  was thrown; normal completion is \<open>Inr\<close> of the state.

  \<open>highlightElement\<close> removes every highlight box, scans, and draws one box at the
  current rectangle of the node the selector resolves to. Reading \<open>.selector\<close> of
  \<open>elements[elementIndex]\<close> is a \<open>TypeError\<close> when the array has no such element.
  The boxes and notifications of the overlay match no category of the scanner and
  are taken not to change what a selector of the page resolves to.
\<close>

definition highlightElement :: "page \<Rightarrow> js_value \<Rightarrow> overlay \<Rightarrow> (error \<times> overlay) + overlay" where
  "highlightElement p elementIndex s =
     (let s1 = s\<lparr>highlights := []\<rparr>;
          elements = captureDomElements p
      in if less_than_length elementIndex (length elements) then
           (case element_at elements elementIndex of
              None \<Rightarrow> Inl (TypeError, s1)
            | Some d \<Rightarrow>
               (case querySelector p (d_selector d) of
                  Invalid_Selector \<Rightarrow> Inl (SyntaxError, s1)
                | No_Match \<Rightarrow> Inr s1
                | Match element \<Rightarrow>
                    Inr (setTimeout 3000 (Remove_Highlight (next_node s1))
                      (s1\<lparr>highlights := highlights s1 @
                            [(next_node s1,
                              \<lparr> b_x = rect_left (el_rect element) + scrollX p,
                                b_y = rect_top (el_rect element) + scrollY p,
                                b_width = rect_width (el_rect element),
                                b_height = rect_height (el_rect element) \<rparr>)],
                          next_node := Suc (next_node s1)\<rparr>))))
         else Inr s1)"

text \<open>
  The click step of \<open>executeAction\<close>: the second scan, the bounds check, the
  resolution of the selector and the click. Calling \<open>click\<close> on a node without
  that method is a \<open>TypeError\<close>.
\<close>

definition click_step :: "page \<Rightarrow> action \<Rightarrow> overlay \<Rightarrow> (error \<times> overlay) + overlay" where
  "click_step p a s =
     (let elements = captureDomElements p
      in if less_than_length (a_element_index a) (length elements) then
           (case element_at elements (a_element_index a) of
              None \<Rightarrow> Inl (TypeError, s)
            | Some d \<Rightarrow>
               (case querySelector p (d_selector d) of
                  Invalid_Selector \<Rightarrow> Inl (SyntaxError, s)
                | No_Match \<Rightarrow> Inr s
                | Match element \<Rightarrow>
                    if \<not> el_has_click element then Inl (TypeError, s)
                    else Inr (showNotification
                           (''Clicked: '' @ (case a_label a of None \<Rightarrow> ''undefined'' | Some l \<Rightarrow> l))
                           (s\<lparr>clicks := clicks s @ [element]\<rparr>))))
         else Inr s)"

text \<open>The highlight step of \<open>executeAction\<close>: skipped when the index is \<open>undefined\<close>.\<close>

definition highlight_step :: "page \<Rightarrow> action \<Rightarrow> overlay \<Rightarrow> (error \<times> overlay) + overlay" where
  "highlight_step p a s =
     (if a_element_index a \<noteq> Undefined then highlightElement p (a_element_index a) s else Inr s)"

text \<open>
  The body of the \<open>try\<close> block of \<open>executeAction\<close>: the highlight step, the click
  step, and the timer that collapses the panel.
\<close>

definition executeAction_try :: "page \<Rightarrow> action \<Rightarrow> overlay \<Rightarrow> (error \<times> overlay) + overlay" where
  "executeAction_try p a s =
     (case highlight_step p a s of
        Inl thrown \<Rightarrow> Inl thrown
      | Inr s1 \<Rightarrow>
          (case click_step p a s1 of
             Inl thrown \<Rightarrow> Inl thrown
           | Inr s2 \<Rightarrow> Inr (setTimeout 1000 Collapse_Panel s2)))"

definition executeAction :: "page \<Rightarrow> action \<Rightarrow> overlay \<Rightarrow> overlay" where
  "executeAction p a s =
     (case executeAction_try p a s of
        Inr s' \<Rightarrow> s'
      | Inl (e, s') \<Rightarrow> showNotification ''Failed to execute action'' s')"

section \<open>Analysis Orchestrator\<close>

text \<open>
  What the outside answers during one analysis: whether the screenshot library is
  there or loads, the data URL the capture resolves to (or its failure), and the
  answer of \<open>fetch\<close> to the posted form.
\<close>

record form =
  f_screenshot :: string
  f_dom_elements :: "descriptor list"
  f_url :: string

datatype body = Not_Json | Json response

datatype fetch_result = Network_Failure | Http nat body

record env =
  html2canvas_loads :: bool
  html2canvas_result :: "string option"
  fetch :: "string \<Rightarrow> form \<Rightarrow> fetch_result"

definition sendToBackend :: "env \<Rightarrow> overlay \<Rightarrow> string \<Rightarrow> form \<Rightarrow> error + response" where
  "sendToBackend e s endpoint data =
     (case fetch e (backendUrl s @ endpoint) data of
        Network_Failure \<Rightarrow> Inl NetworkError
      | Http status b \<Rightarrow>
          if \<not> (200 \<le> status \<and> status \<le> 299) then Inl (BackendError status)
          else (case b of Not_Json \<Rightarrow> Inl JsonError | Json r \<Rightarrow> Inr r))"

definition displayActions :: "action list \<Rightarrow> overlay \<Rightarrow> overlay" where
  "displayActions acts s =
     (if acts = [] then s\<lparr>area := No_Actions_Message\<rparr>
      else s\<lparr>area := Action_Buttons
                 (map (\<lambda>a. (a, case a_confidence a of None \<Rightarrow> False | Some c \<Rightarrow> c > 7 / 10))
                    acts)\<rparr>)"

text \<open>
  The \<open>try\<close> block of \<open>analyzeCurrentPage\<close>. Reading the label of the analyze
  button throws when the panel holds no such button; reading \<open>actions\<close> of a missing
  \<open>analysis\<close> throws after the two assignments before it.
\<close>

definition analyze_try :: "env \<Rightarrow> page \<Rightarrow> overlay \<Rightarrow> (error \<times> overlay) + overlay" where
  "analyze_try e p s =
     (case area s of
        Analyze_Button originalText d \<Rightarrow>
          (let s1 = s\<lparr>area := Analyze_Button Label_Analyzing True\<rparr>
           in if \<not> html2canvas_loads e then Inl (LoadFailed, s1)
              else case html2canvas_result e of
                  None \<Rightarrow> Inl (CaptureFailed, s1)
                | Some screenshot \<Rightarrow>
                    (let domElements = captureDomElements p
                     in case sendToBackend e s1 ''/api/analyze-page''
                               \<lparr> f_screenshot = screenshot,
                                 f_dom_elements = domElements,
                                 f_url = href p \<rparr> of
                          Inl err \<Rightarrow> Inl (err, s1)
                        | Inr r \<Rightarrow>
                            (let s2 = s1\<lparr>sessionId := r_session_id r\<rparr>;
                                 s3 = s2\<lparr>currentPage := r_analysis r\<rparr>
                             in case r_analysis r of
                                  None \<Rightarrow> Inl (TypeError, s3)
                                | Some an \<Rightarrow>
                                    (let s4 = s3\<lparr>actions :=
                                           (case an_actions an of None \<Rightarrow> [] | Some acts \<Rightarrow> acts)\<rparr>
                                     in Inr (displayActions (actions s4) s4)))))
      | _ \<Rightarrow> Inl (TypeError, s))"

text \<open>
  How a call of \<open>analyzeCurrentPage\<close> ends: the \<open>try\<close> block completes, the
  \<open>catch\<close> block handles the error, or the \<open>catch\<close> block itself throws (the
  analyze button is gone) and the promise is rejected.
\<close>

datatype outcome = Completed | Caught error | Rejected error

definition analyzeCurrentPage :: "env \<Rightarrow> page \<Rightarrow> overlay \<Rightarrow> outcome \<times> overlay" where
  "analyzeCurrentPage e p s =
     (case analyze_try e p s of
        Inr s' \<Rightarrow> (Completed, s')
      | Inl (err, s') \<Rightarrow>
          (case area s' of
             Analyze_Button l d \<Rightarrow> (Caught err, s'\<lparr>area := Failure_Message (backendUrl s')\<rparr>)
           | _ \<Rightarrow> (Rejected TypeError, s')))"

text \<open>
  \<open>togglePanel\<close> starts the analysis without waiting for it; here the analysis it
  starts runs to its end.
\<close>

definition togglePanel :: "env \<Rightarrow> page \<Rightarrow> overlay \<Rightarrow> overlay" where
  "togglePanel e p s =
     (if panel_active s then s\<lparr>panel_active := False\<rparr>
      else (let s1 = s\<lparr>panel_active := True\<rparr>
            in if currentPage s1 = None then snd (analyzeCurrentPage e p s1) else s1))"

section \<open>Runs of the overlay\<close>

text \<open>
  The operations that can happen to the overlay, each with the page and the outside
  answers of its moment: the panel is toggled, an analysis is requested, an action
  button is pressed, a highlight is drawn, a pending timer fires.
\<close>

datatype event =
    Toggle env page
  | Analyze env page
  | Execute page action
  | Highlight page js_value
  | Fire nat

fun state_of :: "(error \<times> overlay) + overlay \<Rightarrow> overlay" where
  "state_of (Inl (e, s)) = s"
| "state_of (Inr s) = s"

fun step :: "event \<Rightarrow> overlay \<Rightarrow> overlay" where
  "step (Toggle e p) s = togglePanel e p s"
| "step (Analyze e p) s = snd (analyzeCurrentPage e p s)"
| "step (Execute p a) s = executeAction p a s"
| "step (Highlight p i) s = state_of (highlightElement p i s)"
| "step (Fire k) s = fire k s"

fun run :: "event list \<Rightarrow> overlay \<Rightarrow> overlay" where
  "run [] s = s"
| "run (ev # evs) s = run evs (step ev s)"

section \<open>Notions of the specification\<close>

text \<open>
  The survivors of the visibility filter: the visible candidates in document order,
  each with its position among all candidates.
\<close>

definition survivors :: "page \<Rightarrow> (nat \<times> element) list" where
  "survivors p = filter (\<lambda>ke. isVisible p (snd ke)) (enumerate 0 (candidates p))"

text \<open>The selector \<open>.c1.c2...\<close> of a class list, as the specification writes it.\<close>

definition dot_joined :: "string list \<Rightarrow> string" where
  "dot_joined cs = concat (map (\<lambda>c. ''.'' @ c) cs)"

text \<open>The timers an operation has added to the queue.\<close>

definition new_timers :: "overlay \<Rightarrow> overlay \<Rightarrow> (nat \<times> task) list" where
  "new_timers s s' = drop (length (timers s)) (timers s')"

text \<open>The three session fields of the overlay's state.\<close>

definition session :: "overlay \<Rightarrow> string option \<times> analysis option \<times> action list" where
  "session s = (sessionId s, currentPage s, actions s)"

section \<open>Pages and actions of the scenarios\<close>

text \<open>
  A visible button with a given id, a page made of a list of candidates (a selector
  resolves to the first candidate that generates it), and an action on a given value
  of \<open>element_index\<close>.
\<close>

definition visible_rect :: rect where
  "visible_rect = \<lparr> rect_x = 10, rect_y = 20, rect_width = 100, rect_height = 30 \<rparr>"

definition button :: "string \<Rightarrow> element" where
  "button i =
     \<lparr> el_tagName = ''BUTTON'', el_id = i, el_classList = [], el_testid = None,
       el_textContent = ''OK'', el_aria_label = None, el_placeholder = None,
       el_value = Some [], el_alt = None, el_title = Some [], el_type = Some ''submit'',
       el_rect = visible_rect, style_display = ''block'', style_visibility = ''visible'',
       style_opacity = ''1'', el_has_click = True \<rparr>"

definition first_with :: "element list \<Rightarrow> string \<Rightarrow> query_result" where
  "first_with els sel =
     (case find (\<lambda>el. generateSelector el = sel) els of None \<Rightarrow> No_Match | Some el \<Rightarrow> Match el)"

definition page_of :: "element list \<Rightarrow> page" where
  "page_of els =
     \<lparr> candidates = els, innerHeight = 600, scrollX = 0, scrollY = 0,
       querySelector = first_with els, href = ''http://example.org/'' \<rparr>"

text \<open>A button without text content whose \<open>aria-label\<close> has 101 characters.\<close>

definition long_label :: element where
  "long_label = (button [])\<lparr>el_textContent := [], el_aria_label := Some (replicate 101 CHR ''x'')\<rparr>"

text \<open>A button without id, with the attribute \<open>data-testid=""\<close> and one class.\<close>

definition empty_testid :: element where
  "empty_testid = (button [])\<lparr>el_testid := Some [], el_classList := [''btn'']\<rparr>"

text \<open>
  A page with one visible button whose id holds a space: the selector generated for
  it, \<open>#my id\<close>, asks for an \<open>id\<close> element below the node \<open>my\<close> and resolves to
  no node.
\<close>

definition no_match_page :: page where
  "no_match_page = (page_of [button ''my id''])\<lparr>querySelector := (\<lambda>sel. No_Match)\<rparr>"

definition act :: "js_value \<Rightarrow> action" where
  "act v = \<lparr> a_label = Some ''Go'', a_description = None, a_confidence = Some (9 / 10),
             a_element_index = v \<rparr>"

text \<open>
  The outside of an analysis: the library loads and the capture succeeds; the backend
  answers 200 with a given response, or 500.
\<close>

definition env_ok :: "response \<Rightarrow> env" where
  "env_ok r = \<lparr> html2canvas_loads = True, html2canvas_result = Some ''data:image/jpeg;base64,AA'',
               fetch = (\<lambda>url f. Http 200 (Json r)) \<rparr>"

definition env_500 :: env where
  "env_500 = \<lparr> html2canvas_loads = True, html2canvas_result = Some ''data:image/jpeg;base64,AA'',
               fetch = (\<lambda>url f. Http 500 Not_Json) \<rparr>"

section \<open>The scanner's loop\<close>

lemma scan_loop_eq:
  "scan_loop p i els acc =
     acc @ map (\<lambda>ke. describe p (fst ke) (snd ke))
             (filter (\<lambda>ke. isVisible p (snd ke)) (enumerate i els))"
  by (induction els arbitrary: i acc) simp_all

lemma captureDomElements_eq:
  "captureDomElements p = map (\<lambda>ke. describe p (fst ke) (snd ke)) (take 50 (survivors p))"
  by (simp add: captureDomElements_def survivors_def scan_loop_eq take_map)

lemma map_snd_filter_enumerate:
  "map snd (filter (\<lambda>ke. P (snd ke)) (enumerate i xs)) = filter P xs"
  by (induction xs arbitrary: i) simp_all

lemma length_survivors:
  "length (survivors p) = length (filter (isVisible p) (candidates p))"
  unfolding survivors_def
  by (metis length_map map_snd_filter_enumerate)

lemma survivors_mem:
  "(k, el) \<in> set (survivors p) \<Longrightarrow>
     k < length (candidates p) \<and> el = candidates p ! k \<and> isVisible p el"
  by (auto simp: survivors_def in_set_enumerate_eq)

lemma length_captureDomElements:
  "length (captureDomElements p) = min 50 (length (filter (isVisible p) (candidates p)))"
  by (simp add: captureDomElements_eq length_survivors)

text \<open>Every descriptor of a scan describes a visible candidate, at the candidate's position.\<close>

lemma scanned_is_visible_candidate:
  assumes "d \<in> set (captureDomElements p)"
  shows "d_index d < length (candidates p) \<and> isVisible p (candidates p ! d_index d)
         \<and> d = describe p (d_index d) (candidates p ! d_index d)"
proof -
  from assms obtain k el where ke: "(k, el) \<in> set (survivors p)" and d: "d = describe p k el"
    by (auto simp: captureDomElements_eq dest!: in_set_takeD)
  have k: "d_index d = k" by (simp add: d describe_def)
  from survivors_mem [OF ke] have "k < length (candidates p)"
    and "isVisible p (candidates p ! k)" and "d = describe p k (candidates p ! k)"
    using d by blast+
  then show ?thesis unfolding k by blast
qed

subsection \<open>Facts about the scenario pages\<close>

lemma candidates_page_of: "candidates (page_of els) = els"
  by (simp add: page_of_def)

lemma isVisible_button: "isVisible (page_of els) (button i)"
  by (simp add: isVisible_def page_of_def button_def visible_rect_def rect_top_def rect_bottom_def)

lemma not_isVisible_hidden: "\<not> isVisible (page_of els) ((button i)\<lparr>style_display := ''none''\<rparr>)"
  by (simp add: isVisible_def)

lemma length_capture_one: "length (captureDomElements (page_of [button i])) = 1"
  by (simp add: length_captureDomElements candidates_page_of isVisible_button)

lemma lower_button: "toLowerCase ''BUTTON'' = ''button''"
  by code_simp

section \<open>Scanner: indices, cap, visibility, labels\<close>

text \<open>
  C1. The claim: a scan of a page with N visible qualifying elements (N at most 50)
  returns descriptors whose \<open>index\<close> fields are 0..N-1, the position among the
  survivors of the visibility filter. The scanner stores the position among all
  candidates instead: on a page whose first candidate is hidden and whose second is
  visible, N is 1 and the only descriptor has index 1.
\<close>

theorem scan_index_counts_hidden_candidates:
  "length (filter (isVisible (page_of [(button ''a'')\<lparr>style_display := ''none''\<rparr>, button ''b'']))
             (candidates (page_of [(button ''a'')\<lparr>style_display := ''none''\<rparr>, button ''b'']))) = 1
   \<and> map d_index (captureDomElements (page_of [(button ''a'')\<lparr>style_display := ''none''\<rparr>, button ''b''])) = [1]"
  by (simp add: captureDomElements_def candidates_page_of isVisible_button not_isVisible_hidden describe_def)

text \<open>
  C4. The claim: the \<open>text\<close> of every descriptor has at most 100 characters, whichever
  source of the label chain supplied it. Only the text-content branch truncates: a
  visible button without text content and with an \<open>aria-label\<close> of 101 characters is
  described with a text of 101 characters.
\<close>

theorem aria_label_text_not_truncated:
  "map (length \<circ> d_text) (captureDomElements (page_of [long_label])) = [101]"
proof -
  have vis: "isVisible (page_of [long_label]) long_label"
    using isVisible_button [of "[long_label]" "[]"]
    by (simp add: isVisible_def long_label_def)
  have lab: "elementText long_label = replicate 101 CHR ''x''"
    by (simp add: elementText_def long_label_def)
  show ?thesis
    by (simp add: captureDomElements_def candidates_page_of vis describe_def lab)
qed

text \<open>The text-content branch of the label chain does truncate.\<close>

lemma text_content_label_truncated:
  "trim (el_textContent el) \<noteq> [] \<Longrightarrow> length (elementText el) \<le> 100"
  by (auto simp: elementText_def substring0_def trim_def)

text \<open>
  C5. A scan returns the descriptors of the first 50 survivors in encounter order:
  exactly 50 descriptors when more than 50 candidates are visible, and the
  descriptors of all survivors when at most 50 are.
\<close>

theorem captureDomElements_cap:
  "captureDomElements p = map (\<lambda>ke. describe p (fst ke) (snd ke)) (take 50 (survivors p))
   \<and> (length (filter (isVisible p) (candidates p)) > 50 \<longrightarrow> length (captureDomElements p) = 50)
   \<and> (length (filter (isVisible p) (candidates p)) \<le> 50 \<longrightarrow>
        captureDomElements p = map (\<lambda>ke. describe p (fst ke) (snd ke)) (survivors p)
        \<and> length (captureDomElements p) = length (filter (isVisible p) (candidates p)))"
  by (simp add: captureDomElements_eq length_survivors)

theorem captureDomElements_cap_witness:
  "length (filter (isVisible (page_of (replicate 51 (button ''a''))))
       (candidates (page_of (replicate 51 (button ''a''))))) > 50
   \<and> length (captureDomElements (page_of (replicate 51 (button ''a'')))) = 50
   \<and> length (filter (isVisible (page_of [button ''a'', button ''b'']))
       (candidates (page_of [button ''a'', button ''b'']))) \<le> 50
   \<and> length (captureDomElements (page_of [button ''a'', button ''b''])) = 2"
proof -
  let ?big = "page_of (replicate 51 (button ''a''))"
  let ?small = "page_of [button ''a'', button ''b'']"
  have big: "length (filter (isVisible ?big) (candidates ?big)) > 50"
    by (simp add: candidates_page_of isVisible_button)
  have small: "length (filter (isVisible ?small) (candidates ?small)) = 2"
    by (simp add: candidates_page_of isVisible_button)
  have "length (captureDomElements ?big) = 50"
    using captureDomElements_cap [of ?big] big by blast
  moreover have "length (filter (isVisible ?small) (candidates ?small)) \<le> 50"
    using small by simp
  moreover have "length (captureDomElements ?small) = 2"
    using captureDomElements_cap [of ?small] small by (metis calculation(2))
  ultimately show ?thesis using big by blast
qed

text \<open>
  C6. A candidate whose computed display is \<open>none\<close>, whose box lies entirely below
  the viewport (top at or beyond the viewport height), whose visibility is
  \<open>hidden\<close>, whose opacity is \<open>0\<close>, or whose rendered width or height is not
  positive, never appears in the scan output: no descriptor carries its position.
\<close>

theorem invisible_never_scanned:
  assumes "i < length (candidates p)"
    and "style_display (candidates p ! i) = ''none''
         \<or> rect_top (el_rect (candidates p ! i)) \<ge> innerHeight p
         \<or> style_visibility (candidates p ! i) = ''hidden''
         \<or> style_opacity (candidates p ! i) = ''0''
         \<or> rect_width (el_rect (candidates p ! i)) \<le> 0
         \<or> rect_height (el_rect (candidates p ! i)) \<le> 0"
  shows "\<forall>d \<in> set (captureDomElements p). d_index d \<noteq> i"
proof
  fix d assume "d \<in> set (captureDomElements p)"
  then obtain k el where ke: "(k, el) \<in> set (survivors p)" and d: "d = describe p k el"
    by (auto simp: captureDomElements_eq dest!: in_set_takeD)
  from survivors_mem [OF ke] have "isVisible p (candidates p ! k)"
    by blast
  moreover have "\<not> isVisible p (candidates p ! i)"
    using assms(2) by (auto simp: isVisible_def)
  ultimately have "k \<noteq> i" by auto
  then show "d_index d \<noteq> i" by (simp add: d describe_def)
qed

theorem invisible_never_scanned_witness:
  "0 < length (candidates (page_of [(button ''a'')\<lparr>style_display := ''none''\<rparr>, button ''b'']))
   \<and> style_display
        (candidates (page_of [(button ''a'')\<lparr>style_display := ''none''\<rparr>, button ''b'']) ! 0) = ''none''
   \<and> 0 \<notin> set (map d_index
        (captureDomElements (page_of [(button ''a'')\<lparr>style_display := ''none''\<rparr>, button ''b''])))"
proof -
  let ?p = "page_of [(button ''a'')\<lparr>style_display := ''none''\<rparr>, button ''b'']"
  have len: "0 < length (candidates ?p)"
    by (simp add: candidates_page_of)
  have none: "style_display (candidates ?p ! 0) = ''none''"
    by (simp add: candidates_page_of)
  have "\<forall>d \<in> set (captureDomElements ?p). d_index d \<noteq> 0"
    using invisible_never_scanned [OF len] none by blast
  then have "0 \<notin> set (map d_index (captureDomElements ?p))"
    by auto
  then show ?thesis using len none by blast
qed

section \<open>Selector Generator: the priority chain\<close>

lemma join_dot: "cs \<noteq> [] \<Longrightarrow> ''.'' @ join ''.'' cs = dot_joined cs"
  by (induction "''.''" cs rule: join.induct) (simp_all add: dot_joined_def)

text \<open>
  The claim C7 as stated lets every node with a \<open>data-testid\<close> attribute and no id
  yield the attribute selector. A node whose attribute is the empty string falls
  through to its classes.
\<close>

theorem generateSelector_empty_testid:
  "el_id empty_testid = [] \<and> el_testid empty_testid = Some []
   \<and> generateSelector empty_testid = ''.btn''
   \<and> generateSelector empty_testid \<noteq> ''[data-testid=\"'' @ [] @ ''\"]''"
  by (simp add: empty_testid_def button_def generateSelector_def)

text \<open>
  C7, amended. The chain of \<open>generateSelector\<close>, first match winning: a non-empty id
  yields \<open>#id\<close> whatever else the node has; else a non-empty \<open>data-testid\<close>
  yields the attribute selector; else a non-empty class list yields all classes,
  each preceded by a dot; else the lower-case tag name.
\<close>

theorem generateSelector_chain:
  "(el_id el \<noteq> [] \<longrightarrow> generateSelector el = ''#'' @ el_id el)
   \<and> (el_id el = [] \<and> el_testid el = Some v \<and> v \<noteq> [] \<longrightarrow>
        generateSelector el = ''[data-testid=\"'' @ v @ ''\"]'')
   \<and> (el_id el = [] \<and> (el_testid el = None \<or> el_testid el = Some []) \<and> el_classList el \<noteq> [] \<longrightarrow>
        generateSelector el = dot_joined (el_classList el))
   \<and> (el_id el = [] \<and> (el_testid el = None \<or> el_testid el = Some []) \<and> el_classList el = [] \<longrightarrow>
        generateSelector el = toLowerCase (el_tagName el))"
  using join_dot [of "el_classList el"]
  by (auto simp: generateSelector_def)

theorem generateSelector_chain_witness:
  "generateSelector ((button ''a'')\<lparr>el_classList := [''btn'']\<rparr>) = ''#a''
   \<and> generateSelector ((button [])\<lparr>el_testid := Some ''go'', el_classList := [''btn'']\<rparr>) = ''[data-testid=\"go\"]''
   \<and> generateSelector ((button [])\<lparr>el_classList := [''btn'', ''primary'']\<rparr>) = ''.btn.primary''
   \<and> generateSelector (button []) = ''button''"
  using generateSelector_chain [of "(button ''a'')\<lparr>el_classList := [''btn'']\<rparr>" "[]"]
        generateSelector_chain [of "(button [])\<lparr>el_testid := Some ''go'', el_classList := [''btn'']\<rparr>" "''go''"]
        generateSelector_chain [of "(button [])\<lparr>el_classList := [''btn'', ''primary'']\<rparr>" "[]"]
        generateSelector_chain [of "button []" "[]"]
  by (simp add: button_def dot_joined_def lower_button)

section \<open>Action Executor: stale indices and the panel\<close>

subsection \<open>Frame lemmas\<close>

lemma setTimeout_simps [simp]:
  "timers (setTimeout d t s) = timers s @ [(d, t)]"
  "highlights (setTimeout d t s) = highlights s"
  "notifications (setTimeout d t s) = notifications s"
  "clicks (setTimeout d t s) = clicks s"
  "panel_active (setTimeout d t s) = panel_active s"
  "session (setTimeout d t s) = session s"
  by (simp_all add: setTimeout_def session_def)

lemma showNotification_simps [simp]:
  "timers (showNotification m s) = timers s @ [(3000, Remove_Notification (next_node s))]"
  "highlights (showNotification m s) = highlights s"
  "notifications (showNotification m s) = notifications s @ [(next_node s, m)]"
  "clicks (showNotification m s) = clicks s"
  "panel_active (showNotification m s) = panel_active s"
  "session (showNotification m s) = session s"
  by (simp_all add: showNotification_def setTimeout_def session_def)

text \<open>The three ways \<open>highlightElement\<close> can end.\<close>

lemma highlightElement_cases:
  "highlightElement p i s = Inr (s\<lparr>highlights := []\<rparr>)
   \<or> (\<exists>e. highlightElement p i s = Inl (e, s\<lparr>highlights := []\<rparr>))
   \<or> (\<exists>b. highlightElement p i s =
         Inr (setTimeout 3000 (Remove_Highlight (next_node s))
               (s\<lparr>highlights := [(next_node s, b)], next_node := Suc (next_node s)\<rparr>)))"
  by (auto simp: highlightElement_def Let_def split: option.split query_result.split)

lemma not_less_than_length:
  "to_number v = Some x \<Longrightarrow> real n \<le> x \<Longrightarrow> \<not> less_than_length v n"
  by (simp add: less_than_length_def)

lemma highlightElement_out_of_range:
  "to_number i = Some x \<Longrightarrow> real (length (captureDomElements p)) \<le> x \<Longrightarrow>
     highlightElement p i s = Inr (s\<lparr>highlights := []\<rparr>)"
  by (simp add: highlightElement_def Let_def not_less_than_length)

lemma click_step_out_of_range:
  "to_number (a_element_index a) = Some x \<Longrightarrow> real (length (captureDomElements p)) \<le> x \<Longrightarrow>
     click_step p a s = Inr s"
  by (simp add: click_step_def Let_def not_less_than_length)

lemma index_act: "a_element_index (act v) = v"
  by (simp add: act_def)

lemma out_of_range_try:
  assumes "to_number (a_element_index a) = Some x" and "real (length (captureDomElements p)) \<le> x"
  shows "executeAction_try p a s = Inr (setTimeout 1000 Collapse_Panel (s\<lparr>highlights := []\<rparr>))"
proof -
  have "a_element_index a \<noteq> Undefined"
    using assms(1) by auto
  then show ?thesis
    using assms
    by (simp add: executeAction_try_def highlight_step_def highlightElement_out_of_range
          click_step_out_of_range)
qed

text \<open>
  The claim C2 as stated has an out-of-range index reported as a failure through the
  notification channel. With one visible button and an action on index 1, no
  notification is shown at all.
\<close>

theorem out_of_range_not_reported:
  "real (length (captureDomElements (page_of [button ''a'']))) \<le> 1
   \<and> a_element_index (act (Number 1)) = Number 1
   \<and> notifications (executeAction (page_of [button ''a'']) (act (Number 1)) new_overlay) = []"
proof -
  have "executeAction_try (page_of [button ''a'']) (act (Number 1)) new_overlay
          = Inr (setTimeout 1000 Collapse_Panel (new_overlay\<lparr>highlights := []\<rparr>))"
    by (rule out_of_range_try [where x = 1]) (simp_all add: index_act length_capture_one)
  then show ?thesis
    by (simp add: executeAction_def index_act length_capture_one new_overlay_def)
qed

text \<open>
  C2, amended. For an action whose index is at least the length of the fresh scan,
  \<open>executeAction\<close> does not throw: it removes the highlight boxes, clicks nothing,
  shows no notification, neither of success nor of failure, and schedules the
  collapse of the panel.
\<close>

theorem out_of_range_is_silent:
  assumes "to_number (a_element_index a) = Some x" and "real (length (captureDomElements p)) \<le> x"
  shows "executeAction_try p a s = Inr (setTimeout 1000 Collapse_Panel (s\<lparr>highlights := []\<rparr>))
         \<and> executeAction p a s = setTimeout 1000 Collapse_Panel (s\<lparr>highlights := []\<rparr>)
         \<and> notifications (executeAction p a s) = notifications s
         \<and> clicks (executeAction p a s) = clicks s"
proof -
  have "executeAction_try p a s = Inr (setTimeout 1000 Collapse_Panel (s\<lparr>highlights := []\<rparr>))"
    using assms by (rule out_of_range_try)
  then show ?thesis by (simp add: executeAction_def)
qed

theorem out_of_range_is_silent_witness:
  "to_number (a_element_index (act (Number 1))) = Some 1
   \<and> real (length (captureDomElements (page_of [button ''a'']))) \<le> 1
   \<and> executeAction (page_of [button ''a'']) (act (Number 1)) new_overlay
       = setTimeout 1000 Collapse_Panel (new_overlay\<lparr>highlights := []\<rparr>)
   \<and> notifications (executeAction (page_of [button ''a'']) (act (Number 1)) new_overlay) = []
   \<and> clicks (executeAction (page_of [button ''a'']) (act (Number 1)) new_overlay) = []"
proof -
  have i: "to_number (a_element_index (act (Number 1))) = Some 1"
    by (simp add: index_act)
  have n: "real (length (captureDomElements (page_of [button ''a'']))) \<le> 1"
    by (simp add: length_capture_one)
  show ?thesis
    using out_of_range_is_silent [OF i n, of new_overlay] i n
    by (simp add: new_overlay_def)
qed

subsection \<open>Completion and throw of the try block\<close>

lemma click_step_timers:
  "click_step p a s = Inr s' \<Longrightarrow>
     (timers s' = timers s \<and> clicks s' = clicks s)
     \<or> (timers s' = timers s @ [(3000, Remove_Notification (next_node s))] \<and> clicks s' \<noteq> clicks s)"
  by (auto simp: click_step_def Let_def split: option.splits if_splits query_result.splits)

lemma click_step_throw_state:
  "click_step p a s = Inl (e, s') \<Longrightarrow> s' = s"
  by (auto simp: click_step_def Let_def split: option.splits if_splits query_result.splits)

lemma highlightElement_Inr:
  "highlightElement p i s = Inr s1 \<Longrightarrow>
     \<exists>ts. timers s1 = timers s @ ts \<and> (\<forall>d. (d, Collapse_Panel) \<notin> set ts) \<and> clicks s1 = clicks s"
  using highlightElement_cases [of p i s] by auto

lemma highlightElement_Inl:
  "highlightElement p i s = Inl (e, s1) \<Longrightarrow> timers s1 = timers s \<and> clicks s1 = clicks s"
  using highlightElement_cases [of p i s] by auto

lemma highlight_step_Inr:
  "highlight_step p a s = Inr s1 \<Longrightarrow>
     \<exists>ts. timers s1 = timers s @ ts \<and> (\<forall>d. (d, Collapse_Panel) \<notin> set ts) \<and> clicks s1 = clicks s"
  by (auto simp: highlight_step_def split: if_splits dest: highlightElement_Inr)

lemma highlight_step_Inl:
  "highlight_step p a s = Inl (e, s1) \<Longrightarrow> timers s1 = timers s \<and> clicks s1 = clicks s"
  by (auto simp: highlight_step_def split: if_splits dest: highlightElement_Inl)

lemma executeAction_completes:
  assumes "executeAction_try p a s = Inr s'"
  shows "\<exists>ts. timers (executeAction p a s) = timers s @ ts @ [(1000, Collapse_Panel)]
          \<and> (\<forall>d. (d, Collapse_Panel) \<notin> set ts)"
proof -
  from assms obtain s1 s2 where h: "highlight_step p a s = Inr s1"
    and c: "click_step p a s1 = Inr s2" and s': "s' = setTimeout 1000 Collapse_Panel s2"
    by (auto simp: executeAction_try_def split: sum.splits)
  from highlight_step_Inr [OF h] obtain ts where ts: "timers s1 = timers s @ ts"
    "(\<forall>d. (d, Collapse_Panel) \<notin> set ts)" by blast
  from click_step_timers [OF c] obtain us where us: "timers s2 = timers s1 @ us"
    "(\<forall>d. (d, Collapse_Panel) \<notin> set us)" by auto
  have "timers (executeAction p a s) = timers s @ (ts @ us) @ [(1000, Collapse_Panel)]"
    using assms by (simp add: executeAction_def s' ts us)
  moreover have "(\<forall>d. (d, Collapse_Panel) \<notin> set (ts @ us))"
    using ts us by auto
  ultimately show ?thesis by blast
qed

lemma executeAction_throws:
  assumes "executeAction_try p a s = Inl th"
  shows "\<exists>ts. timers (executeAction p a s) = timers s @ ts \<and> (\<forall>d. (d, Collapse_Panel) \<notin> set ts)"
    and "clicks (executeAction p a s) = clicks s"
proof -
  obtain e s' where th: "th = (e, s')" by (cases th)
  have ex: "executeAction p a s = showNotification ''Failed to execute action'' s'"
    using assms by (simp add: executeAction_def th)
  have "\<exists>ts. timers s' = timers s @ ts \<and> (\<forall>d. (d, Collapse_Panel) \<notin> set ts) \<and> clicks s' = clicks s"
  proof (cases "highlight_step p a s")
    case (Inl thrown)
    then have "highlight_step p a s = Inl (e, s')"
      using assms by (simp add: executeAction_try_def th)
    from highlight_step_Inl [OF this] show ?thesis by simp
  next
    case (Inr s1)
    then have "click_step p a s1 = Inl (e, s')"
      using assms by (simp add: executeAction_try_def th split: sum.splits)
    from click_step_throw_state [OF this] highlight_step_Inr [OF Inr] show ?thesis by simp
  qed
  then obtain ts where ts: "timers s' = timers s @ ts" "(\<forall>d. (d, Collapse_Panel) \<notin> set ts)"
    "clicks s' = clicks s" by blast
  have "timers (executeAction p a s) = timers s @ (ts @ [(3000, Remove_Notification (next_node s'))])"
    by (simp add: ex ts)
  moreover have "\<forall>d. (d, Collapse_Panel) \<notin> set (ts @ [(3000, Remove_Notification (next_node s'))])"
    using ts by auto
  ultimately show "\<exists>ts. timers (executeAction p a s) = timers s @ ts \<and> (\<forall>d. (d, Collapse_Panel) \<notin> set ts)"
    by blast
  show "clicks (executeAction p a s) = clicks s"
    by (simp add: ex ts)
qed

text \<open>A selector that resolves to no node ends the try block without a throw and without a click.\<close>

lemma no_match_try:
  assumes "less_than_length (a_element_index a) (length (captureDomElements p))"
    and "element_at (captureDomElements p) (a_element_index a) = Some d"
    and "querySelector p (d_selector d) = No_Match"
  shows "executeAction_try p a s = Inr (setTimeout 1000 Collapse_Panel (s\<lparr>highlights := []\<rparr>))"
proof -
  have "a_element_index a \<noteq> Undefined"
    using assms(1) by (auto simp: less_than_length_def)
  then show ?thesis
    using assms
    by (simp add: executeAction_try_def highlight_step_def highlightElement_def click_step_def Let_def)
qed

text \<open>
  The claim C3 as stated collapses the panel only after a successful click. With one
  visible button and an action on index 1 nothing is clicked, and the collapse is
  scheduled all the same.
\<close>

theorem out_of_range_still_collapses:
  "real (length (captureDomElements (page_of [button ''a'']))) \<le> 1
   \<and> a_element_index (act (Number 1)) = Number 1
   \<and> clicks (executeAction (page_of [button ''a'']) (act (Number 1)) new_overlay) = []
   \<and> timers (executeAction (page_of [button ''a'']) (act (Number 1)) new_overlay) = [(1000, Collapse_Panel)]"
proof -
  have "executeAction_try (page_of [button ''a'']) (act (Number 1)) new_overlay
          = Inr (setTimeout 1000 Collapse_Panel (new_overlay\<lparr>highlights := []\<rparr>))"
    by (rule out_of_range_try [where x = 1]) (simp_all add: index_act length_capture_one)
  then show ?thesis
    by (simp add: executeAction_def index_act length_capture_one new_overlay_def)
qed

text \<open>
  C3, amended. \<open>executeAction\<close> schedules the collapse of the panel, with the fixed
  delay of 1000 ms, exactly when its \<open>try\<close> block completes without a throw. Every
  execution that clicks schedules the collapse, and an execution that throws
  schedules none. An execution that fails without a throw schedules it as well: one
  whose index is at least the length of the fresh scan, and one whose selector
  resolves to no node; both click nothing.
\<close>

theorem collapse_iff_no_throw:
  "((1000, Collapse_Panel) \<in> set (new_timers s (executeAction p a s)))
      = (\<exists>s'. executeAction_try p a s = Inr s')
   \<and> (\<exists>d. (d, Collapse_Panel) \<in> set (new_timers s (executeAction p a s)))
      = (\<exists>s'. executeAction_try p a s = Inr s')
   \<and> (clicks (executeAction p a s) \<noteq> clicks s \<longrightarrow>
        (1000, Collapse_Panel) \<in> set (new_timers s (executeAction p a s)))
   \<and> (\<forall>x. to_number (a_element_index a) = Some x \<and> real (length (captureDomElements p)) \<le> x \<longrightarrow>
        (1000, Collapse_Panel) \<in> set (new_timers s (executeAction p a s))
        \<and> clicks (executeAction p a s) = clicks s)
   \<and> (\<forall>d. less_than_length (a_element_index a) (length (captureDomElements p))
           \<and> element_at (captureDomElements p) (a_element_index a) = Some d
           \<and> querySelector p (d_selector d) = No_Match \<longrightarrow>
        (1000, Collapse_Panel) \<in> set (new_timers s (executeAction p a s))
        \<and> clicks (executeAction p a s) = clicks s)"
proof -
  have iff: "((1000, Collapse_Panel) \<in> set (new_timers s (executeAction p a s)))
               = (\<exists>s'. executeAction_try p a s = Inr s')
             \<and> (\<exists>d. (d, Collapse_Panel) \<in> set (new_timers s (executeAction p a s)))
               = (\<exists>s'. executeAction_try p a s = Inr s')
             \<and> (clicks (executeAction p a s) \<noteq> clicks s \<longrightarrow>
                  (1000, Collapse_Panel) \<in> set (new_timers s (executeAction p a s)))"
  proof (cases "executeAction_try p a s")
    case (Inl th)
    from executeAction_throws [OF Inl] show ?thesis
      using Inl by (auto simp: new_timers_def)
  next
    case (Inr s')
    from executeAction_completes [OF Inr] show ?thesis
      using Inr by (auto simp: new_timers_def)
  qed
  have quiet: "(1000, Collapse_Panel) \<in> set (new_timers s (executeAction p a s))
               \<and> clicks (executeAction p a s) = clicks s"
    if "executeAction_try p a s = Inr (setTimeout 1000 Collapse_Panel (s\<lparr>highlights := []\<rparr>))"
    using that by (simp add: executeAction_def new_timers_def)
  have range: "\<forall>x. to_number (a_element_index a) = Some x \<and> real (length (captureDomElements p)) \<le> x \<longrightarrow>
        (1000, Collapse_Panel) \<in> set (new_timers s (executeAction p a s))
        \<and> clicks (executeAction p a s) = clicks s"
    using quiet out_of_range_try [of a _ p s] by blast
  have none: "\<forall>d. less_than_length (a_element_index a) (length (captureDomElements p))
           \<and> element_at (captureDomElements p) (a_element_index a) = Some d
           \<and> querySelector p (d_selector d) = No_Match \<longrightarrow>
        (1000, Collapse_Panel) \<in> set (new_timers s (executeAction p a s))
        \<and> clicks (executeAction p a s) = clicks s"
    using quiet no_match_try [of a p _ s] by blast
  show ?thesis using iff range none by blast
qed

lemma first_with_b:
  "querySelector (page_of [button ''a'', button ''b'', button ''c'']) ''#b'' = Match (button ''b'')"
  by (simp add: page_of_def first_with_def generateSelector_def button_def)

lemma capture_abc:
  "captureDomElements (page_of [button ''a'', button ''b'', button ''c'']) =
     [describe (page_of [button ''a'', button ''b'', button ''c'']) 0 (button ''a''),
      describe (page_of [button ''a'', button ''b'', button ''c'']) 1 (button ''b''),
      describe (page_of [button ''a'', button ''b'', button ''c'']) 2 (button ''c'')]"
  by (simp add: captureDomElements_def candidates_page_of isVisible_button numeral_2_eq_2)

lemma selector_button: "i \<noteq> [] \<Longrightarrow> d_selector (describe p k (button i)) = ''#'' @ i"
  by (simp add: describe_def generateSelector_def button_def)


lemma highlight_scenario_b:
  "highlightElement (page_of [button ''a'', button ''b'', button ''c'']) (Number 1) s =
     Inr (setTimeout 3000 (Remove_Highlight (next_node s))
           (s\<lparr>highlights := [(next_node s, \<lparr> b_x = 10, b_y = 20, b_width = 100, b_height = 30 \<rparr>)],
               next_node := Suc (next_node s)\<rparr>))"
  by (simp add: highlightElement_def capture_abc selector_button first_with_b Let_def
        less_than_length_def element_at_def)
     (simp add: button_def visible_rect_def rect_left_def rect_top_def page_of_def)


lemma click_scenario_b:
  "click_step (page_of [button ''a'', button ''b'', button ''c'']) (act (Number 1)) s =
     Inr (showNotification ''Clicked: Go'' (s\<lparr>clicks := clicks s @ [button ''b'']\<rparr>))"
proof -
  have "el_has_click (button ''b'')" and "a_label (act (Number 1)) = Some ''Go''"
    by (simp_all add: button_def act_def)
  then show ?thesis
    by (simp add: click_step_def capture_abc selector_button first_with_b index_act Let_def
          less_than_length_def element_at_def)
qed

lemma clicks_scenario_b:
  "clicks (executeAction (page_of [button ''a'', button ''b'', button ''c'']) (act (Number 1)) new_overlay)
     = [button ''b'']"
  by (simp add: executeAction_def executeAction_try_def highlight_step_def index_act
        highlight_scenario_b click_scenario_b)
     (simp add: new_overlay_def)

text \<open>
  Two throws of the try block: a \<open>null\<close> index on a page with a visible element, and
  a selector that resolves to a node without a \<open>click\<close> method. Both end in the
  failure notification, without a click and without the collapse timer.
\<close>

lemma null_index_throws:
  "executeAction (page_of [button ''a'']) (act Null) s
     = showNotification ''Failed to execute action'' (s\<lparr>highlights := []\<rparr>)"
proof -
  have "less_than_length Null (length (captureDomElements (page_of [button ''a''])))"
    by (simp add: less_than_length_def length_capture_one)
  then have "highlightElement (page_of [button ''a'']) Null s = Inl (TypeError, s\<lparr>highlights := []\<rparr>)"
    by (simp add: highlightElement_def element_at_def Let_def)
  then show ?thesis
    by (simp add: executeAction_def executeAction_try_def highlight_step_def index_act)
qed

lemma click_step_without_method:
  "click_step (page_of [(button ''a'')\<lparr>el_has_click := False\<rparr>]) (act (Number 0)) s = Inl (TypeError, s)"
proof -
  let ?el = "(button ''a'')\<lparr>el_has_click := False\<rparr>"
  have vis: "isVisible (page_of [?el]) ?el"
    using isVisible_button [of "[?el]" "''a''"] by (simp add: isVisible_def)
  have scan: "captureDomElements (page_of [?el]) = [describe (page_of [?el]) 0 ?el]"
    by (simp add: captureDomElements_def candidates_page_of vis)
  have sel: "d_selector (describe (page_of [?el]) 0 ?el) = ''#a''"
    by (simp add: describe_def generateSelector_def button_def)
  have res: "querySelector (page_of [?el]) ''#a'' = Match ?el"
    by (simp add: page_of_def first_with_def generateSelector_def button_def)
  show ?thesis
    by (simp add: click_step_def scan sel res index_act Let_def less_than_length_def element_at_def)
qed

lemma capture_no_match_page:
  "captureDomElements no_match_page = [describe no_match_page 0 (button ''my id'')]"
proof -
  have "isVisible no_match_page (button ''my id'')"
    using isVisible_button [of "[button ''my id'']" "''my id''"]
    by (simp add: isVisible_def no_match_page_def page_of_def)
  then show ?thesis
    by (simp add: captureDomElements_def no_match_page_def page_of_def)
qed

theorem collapse_iff_no_throw_witness:
  "clicks (executeAction (page_of [button ''a'', button ''b'', button ''c'']) (act (Number 1)) new_overlay)
     \<noteq> clicks new_overlay
   \<and> (1000, Collapse_Panel) \<in> set (new_timers new_overlay
        (executeAction (page_of [button ''a'', button ''b'', button ''c'']) (act (Number 1)) new_overlay))
   \<and> to_number (a_element_index (act (Number 1))) = Some 1
   \<and> real (length (captureDomElements (page_of [button ''a'']))) \<le> 1
   \<and> (1000, Collapse_Panel) \<in> set (new_timers new_overlay
        (executeAction (page_of [button ''a'']) (act (Number 1)) new_overlay))
   \<and> clicks (executeAction (page_of [button ''a'']) (act (Number 1)) new_overlay) = []
   \<and> less_than_length (a_element_index (act (Number 0))) (length (captureDomElements no_match_page))
   \<and> element_at (captureDomElements no_match_page) (a_element_index (act (Number 0)))
        = Some (describe no_match_page 0 (button ''my id''))
   \<and> querySelector no_match_page (d_selector (describe no_match_page 0 (button ''my id''))) = No_Match
   \<and> (1000, Collapse_Panel) \<in> set (new_timers new_overlay
        (executeAction no_match_page (act (Number 0)) new_overlay))
   \<and> clicks (executeAction no_match_page (act (Number 0)) new_overlay) = []"
proof -
  let ?abc = "page_of [button ''a'', button ''b'', button ''c'']"
  let ?a = "page_of [button ''a'']"
  let ?act = "act (Number 1)"
  have c: "clicks (executeAction ?abc ?act new_overlay) \<noteq> clicks new_overlay"
    by (simp add: clicks_scenario_b) (simp add: new_overlay_def)
  have i: "to_number (a_element_index ?act) = Some 1"
    by (simp add: index_act)
  have n: "real (length (captureDomElements ?a)) \<le> 1"
    by (simp add: length_capture_one)
  have e: "clicks new_overlay = []"
    by (simp add: new_overlay_def)
  have l: "less_than_length (a_element_index (act (Number 0))) (length (captureDomElements no_match_page))"
    by (simp add: index_act capture_no_match_page less_than_length_def)
  have d: "element_at (captureDomElements no_match_page) (a_element_index (act (Number 0)))
             = Some (describe no_match_page 0 (button ''my id''))"
    by (simp add: index_act capture_no_match_page element_at_def)
  have q: "querySelector no_match_page (d_selector (describe no_match_page 0 (button ''my id''))) = No_Match"
    by (simp add: no_match_page_def)
  have "(1000, Collapse_Panel) \<in> set (new_timers new_overlay (executeAction ?abc ?act new_overlay))"
    using collapse_iff_no_throw [of new_overlay ?abc ?act] c by blast
  moreover have "(1000, Collapse_Panel) \<in> set (new_timers new_overlay (executeAction ?a ?act new_overlay))
      \<and> clicks (executeAction ?a ?act new_overlay) = clicks new_overlay"
    using collapse_iff_no_throw [of new_overlay ?a ?act] i n by blast
  moreover have "(1000, Collapse_Panel) \<in> set (new_timers new_overlay
        (executeAction no_match_page (act (Number 0)) new_overlay))
      \<and> clicks (executeAction no_match_page (act (Number 0)) new_overlay) = clicks new_overlay"
    using collapse_iff_no_throw [of new_overlay no_match_page "act (Number 0)"] l d q by blast
  ultimately show ?thesis using c i n e l d q by simp
qed

section \<open>Highlight boxes\<close>

lemma highlights_analyze_try:
  "highlights (state_of (analyze_try e p s)) = highlights s"
  "panel_active (state_of (analyze_try e p s)) = panel_active s"
  by (simp_all add: analyze_try_def Let_def displayActions_def
        split: actions_area.split option.split sum.split)

lemma snd_analyzeCurrentPage:
  "snd (analyzeCurrentPage e p s) =
     (case area (state_of (analyze_try e p s)) of
        Analyze_Button l d \<Rightarrow>
          (if isl (analyze_try e p s)
           then (state_of (analyze_try e p s))\<lparr>area := Failure_Message (backendUrl (state_of (analyze_try e p s)))\<rparr>
           else state_of (analyze_try e p s))
      | _ \<Rightarrow> state_of (analyze_try e p s))"
  by (cases "analyze_try e p s")
     (auto simp: analyzeCurrentPage_def split: actions_area.split prod.split)

lemma highlights_analyzeCurrentPage:
  "highlights (snd (analyzeCurrentPage e p s)) = highlights s"
  "panel_active (snd (analyzeCurrentPage e p s)) = panel_active s"
  by (simp_all add: snd_analyzeCurrentPage highlights_analyze_try split: actions_area.split)

lemma highlights_togglePanel: "highlights (togglePanel e p s) = highlights s"
  by (simp add: togglePanel_def Let_def highlights_analyzeCurrentPage)

lemma highlightElement_le1: "length (highlights (state_of (highlightElement p i s))) \<le> Suc 0"
  using highlightElement_cases [of p i s] by auto

lemma highlightElement_fresh:
  "set (map fst (highlights (state_of (highlightElement p i s)))) \<subseteq> {next_node s}"
  using highlightElement_cases [of p i s] by auto

lemma highlights_click_step: "highlights (state_of (click_step p a s)) = highlights s"
  by (simp add: click_step_def Let_def split: option.split query_result.split)

lemma highlights_executeAction:
  "highlights (executeAction p a s) = highlights (state_of (highlight_step p a s))"
proof (cases "highlight_step p a s")
  case (Inl th)
  then show ?thesis
    by (cases th) (simp add: executeAction_def executeAction_try_def)
next
  case (Inr s1)
  show ?thesis
    using highlights_click_step [of p a s1]
    by (cases "click_step p a s1")
       (auto simp: executeAction_def executeAction_try_def Inr)
qed

lemma executeAction_le1:
  "length (highlights s) \<le> Suc 0 \<Longrightarrow> length (highlights (executeAction p a s)) \<le> Suc 0"
  by (simp add: highlights_executeAction highlight_step_def highlightElement_le1)

lemma fire_le1: "length (highlights s) \<le> Suc 0 \<Longrightarrow> length (highlights (fire k s)) \<le> Suc 0"
proof -
  have "length (highlights (run_task t s')) \<le> length (highlights s')" for t s'
    by (cases t) simp_all
  from this [of "snd (timers s ! k)" "s\<lparr>timers := take k (timers s) @ drop (Suc k) (timers s)\<rparr>"]
  show "length (highlights s) \<le> Suc 0 \<Longrightarrow> length (highlights (fire k s)) \<le> Suc 0"
    by (simp add: fire_def)
qed

lemma step_le1: "length (highlights s) \<le> Suc 0 \<Longrightarrow> length (highlights (step ev s)) \<le> Suc 0"
  by (cases ev)
     (simp_all add: highlights_togglePanel highlights_analyzeCurrentPage executeAction_le1
        highlightElement_le1 fire_le1)

lemma run_le1: "length (highlights s) \<le> Suc 0 \<Longrightarrow> length (highlights (run evs s)) \<le> Suc 0"
  by (induction evs arbitrary: s) (simp_all add: step_le1)

text \<open>
  C8. \<open>highlightElement\<close> removes every highlight box before it adds at most one,
  so it leaves at most one box, and that one is the node it has just created. No
  operation of the overlay raises the number of boxes above one: it is at most one
  after every run from the fresh overlay, and after every run from a state with at
  most one box.
\<close>

theorem at_most_one_highlight:
  "length (highlights (state_of (highlightElement p i s))) \<le> 1
   \<and> set (map fst (highlights (state_of (highlightElement p i s)))) \<subseteq> {next_node s}
   \<and> (length (highlights s) \<le> 1 \<longrightarrow> length (highlights (run evs s)) \<le> 1)
   \<and> length (highlights (run evs new_overlay)) \<le> 1"
proof -
  have "length (highlights new_overlay) \<le> Suc 0" by (simp add: new_overlay_def)
  then show ?thesis
    using highlightElement_le1 [of p i s] highlightElement_fresh [of p i s]
      run_le1 [of s evs] run_le1 [of new_overlay evs]
    by simp
qed


theorem at_most_one_highlight_witness:
  "length (highlights new_overlay) \<le> 1
   \<and> length (highlights (run [Highlight (page_of [button ''a'', button ''b'', button ''c'']) (Number 1),
                               Highlight (page_of [button ''a'', button ''b'', button ''c'']) (Number 1)] new_overlay)) \<le> 1
   \<and> map fst (highlights (run [Highlight (page_of [button ''a'', button ''b'', button ''c'']) (Number 1),
                               Highlight (page_of [button ''a'', button ''b'', button ''c'']) (Number 1)] new_overlay)) = [1]"
proof -
  let ?p = "page_of [button ''a'', button ''b'', button ''c'']"
  have init: "length (highlights new_overlay) \<le> 1"
    by (simp add: new_overlay_def)
  have "length (highlights (run [Highlight ?p (Number 1), Highlight ?p (Number 1)] new_overlay)) \<le> 1"
    using at_most_one_highlight [of ?p "Number 1" new_overlay "[Highlight ?p (Number 1), Highlight ?p (Number 1)]"] init
    by blast
  moreover have "map fst (highlights (run [Highlight ?p (Number 1), Highlight ?p (Number 1)] new_overlay)) = [1]"
    by (simp add: highlight_scenario_b setTimeout_def new_overlay_def)
  ultimately show ?thesis using init by blast
qed

section \<open>Analysis Orchestrator: the session on failure\<close>

lemma sendToBackend_area [simp]:
  "sendToBackend e (s\<lparr>area := x\<rparr>) endpoint data = sendToBackend e s endpoint data"
  by (simp add: sendToBackend_def)

lemma sendToBackend_non_2xx:
  "fetch e (backendUrl s @ endpoint) data = Http status b \<Longrightarrow> \<not> (200 \<le> status \<and> status \<le> 299) \<Longrightarrow>
     sendToBackend e s endpoint data = Inl (BackendError status)"
  by (simp add: sendToBackend_def)

lemma session_area [simp]: "session (s\<lparr>area := x\<rparr>) = session s"
  by (simp add: session_def)

lemma session_analyzeCurrentPage:
  "session (snd (analyzeCurrentPage e p s)) = session (state_of (analyze_try e p s))"
  by (simp add: snd_analyzeCurrentPage split: actions_area.split)

lemma analyze_try_session_changed:
  assumes "session (state_of (analyze_try e p s)) \<noteq> session s"
  shows "\<exists>shot r. html2canvas_loads e \<and> html2canvas_result e = Some shot
           \<and> sendToBackend e s ''/api/analyze-page''
                \<lparr> f_screenshot = shot, f_dom_elements = captureDomElements p, f_url = href p \<rparr> = Inr r"
  using assms
  by (auto simp: analyze_try_def Let_def split: actions_area.splits option.splits sum.splits if_splits)

text \<open>
  C9. When the screenshot library fails to load, the capture fails, or the backend
  request throws (a network failure, a status outside 200..299, a body that is not
  JSON), \<open>analyzeCurrentPage\<close> leaves \<open>sessionId\<close>, \<open>currentPage\<close> and
  \<open>actions\<close> as they were. They change only when the backend request has returned
  a response.
\<close>

theorem analyze_failure_keeps_session:
  "((\<not> html2canvas_loads e \<or> html2canvas_result e = None
      \<or> (\<exists>shot err. html2canvas_result e = Some shot
            \<and> sendToBackend e s ''/api/analyze-page''
                 \<lparr> f_screenshot = shot, f_dom_elements = captureDomElements p, f_url = href p \<rparr> = Inl err))
     \<longrightarrow> session (snd (analyzeCurrentPage e p s)) = session s)
   \<and> (session (snd (analyzeCurrentPage e p s)) \<noteq> session s \<longrightarrow>
        (\<exists>shot r. html2canvas_loads e \<and> html2canvas_result e = Some shot
           \<and> sendToBackend e s ''/api/analyze-page''
                \<lparr> f_screenshot = shot, f_dom_elements = captureDomElements p, f_url = href p \<rparr> = Inr r))"
proof (intro conjI impI)
  assume fails: "\<not> html2canvas_loads e \<or> html2canvas_result e = None
      \<or> (\<exists>shot err. html2canvas_result e = Some shot
            \<and> sendToBackend e s ''/api/analyze-page''
                 \<lparr> f_screenshot = shot, f_dom_elements = captureDomElements p, f_url = href p \<rparr> = Inl err)"
  show "session (snd (analyzeCurrentPage e p s)) = session s"
  proof (rule ccontr)
    assume "session (snd (analyzeCurrentPage e p s)) \<noteq> session s"
    then have "session (state_of (analyze_try e p s)) \<noteq> session s"
      by (simp add: session_analyzeCurrentPage)
    from analyze_try_session_changed [OF this] obtain shot r
      where "html2canvas_loads e" and "html2canvas_result e = Some shot"
        and "sendToBackend e s ''/api/analyze-page''
               \<lparr> f_screenshot = shot, f_dom_elements = captureDomElements p, f_url = href p \<rparr> = Inr r"
      by blast
    with fails show False by auto
  qed
next
  assume "session (snd (analyzeCurrentPage e p s)) \<noteq> session s"
  then have "session (state_of (analyze_try e p s)) \<noteq> session s"
    by (simp add: session_analyzeCurrentPage)
  from analyze_try_session_changed [OF this]
  show "\<exists>shot r. html2canvas_loads e \<and> html2canvas_result e = Some shot
           \<and> sendToBackend e s ''/api/analyze-page''
                \<lparr> f_screenshot = shot, f_dom_elements = captureDomElements p, f_url = href p \<rparr> = Inr r" .
qed


lemma new_overlay_fields:
  "area new_overlay = Analyze_Button Label_Analyze False"
  "backendUrl new_overlay = ''http://localhost:8000''"
  by (simp_all add: new_overlay_def)

lemma env_500_fields:
  "html2canvas_loads env_500"
  "html2canvas_result env_500 = Some ''data:image/jpeg;base64,AA''"
  by (simp_all add: env_500_def)

lemma send_500:
  "sendToBackend env_500 s endpoint data = Inl (BackendError 500)"
  by (rule sendToBackend_non_2xx [where b = Not_Json]) (simp_all add: env_500_def)

theorem analyze_failure_keeps_session_witness:
  "html2canvas_result env_500 = Some ''data:image/jpeg;base64,AA''
   \<and> sendToBackend env_500 new_overlay ''/api/analyze-page''
        \<lparr> f_screenshot = ''data:image/jpeg;base64,AA'',
          f_dom_elements = captureDomElements (page_of [button ''a'']),
          f_url = href (page_of [button ''a'']) \<rparr> = Inl (BackendError 500)
   \<and> session (snd (analyzeCurrentPage env_500 (page_of [button ''a'']) new_overlay)) = (None, None, [])
   \<and> fst (analyzeCurrentPage env_500 (page_of [button ''a'']) new_overlay) = Caught (BackendError 500)"
proof -
  let ?p = "page_of [button ''a'']"
  have shot: "html2canvas_result env_500 = Some ''data:image/jpeg;base64,AA''"
    by (simp add: env_500_def)
  have send: "sendToBackend env_500 new_overlay ''/api/analyze-page''
        \<lparr> f_screenshot = ''data:image/jpeg;base64,AA'',
          f_dom_elements = captureDomElements ?p, f_url = href ?p \<rparr> = Inl (BackendError 500)"
    by (rule send_500)
  have "session (snd (analyzeCurrentPage env_500 ?p new_overlay)) = session new_overlay"
    using analyze_failure_keeps_session [of env_500 new_overlay ?p] shot send by blast
  moreover have "session new_overlay = (None, None, [])"
    by (simp add: session_def new_overlay_def)
  moreover have "fst (analyzeCurrentPage env_500 ?p new_overlay) = Caught (BackendError 500)"
    by (simp add: analyzeCurrentPage_def analyze_try_def send_500 Let_def
          new_overlay_fields env_500_fields)
  ultimately show ?thesis using shot send by simp
qed

text \<open>A response without \<open>analysis\<close>: the call fails after the backend has answered.\<close>

lemma analyze_missing_analysis:
  "session (snd (analyzeCurrentPage (env_ok \<lparr> r_session_id = Some ''s1'', r_analysis = None \<rparr>)
                   (page_of [button ''a'']) (new_overlay\<lparr>actions := [act (Number 0)]\<rparr>)))
     = (Some ''s1'', None, [act (Number 0)])"
  by (simp add: analyzeCurrentPage_def analyze_try_def sendToBackend_def Let_def session_def
        new_overlay_def env_ok_def)

section \<open>The panel toggle\<close>

text \<open>
  C10. On a hidden panel with no stored analysis (\<open>currentPage\<close> is \<open>null\<close>),
  \<open>togglePanel\<close> opens the panel and runs \<open>analyzeCurrentPage\<close> on the opened
  state, and the panel is open afterwards. On a hidden panel with a stored analysis
  it only opens the panel, and on an open panel it only hides it: the state is
  otherwise unchanged and no analysis runs.
\<close>

theorem togglePanel_cases:
  "(\<not> panel_active s \<and> currentPage s = None \<longrightarrow>
      togglePanel e p s = snd (analyzeCurrentPage e p (s\<lparr>panel_active := True\<rparr>))
      \<and> panel_active (togglePanel e p s))
   \<and> (\<not> panel_active s \<and> currentPage s \<noteq> None \<longrightarrow> togglePanel e p s = s\<lparr>panel_active := True\<rparr>)
   \<and> (panel_active s \<longrightarrow> togglePanel e p s = s\<lparr>panel_active := False\<rparr>)"
  by (simp add: togglePanel_def Let_def highlights_analyzeCurrentPage)

theorem togglePanel_cases_witness:
  "\<not> panel_active new_overlay \<and> currentPage new_overlay = None
   \<and> panel_active (togglePanel env_500 (page_of [button ''a'']) new_overlay)
   \<and> area (togglePanel env_500 (page_of [button ''a'']) new_overlay) = Failure_Message ''http://localhost:8000''
   \<and> togglePanel env_500 (page_of [button ''a''])
        (new_overlay\<lparr>currentPage := Some \<lparr> an_actions = None \<rparr>\<rparr>)
       = new_overlay\<lparr>currentPage := Some \<lparr> an_actions = None \<rparr>, panel_active := True\<rparr>
   \<and> togglePanel env_500 (page_of [button ''a'']) (new_overlay\<lparr>panel_active := True\<rparr>)
       = new_overlay\<lparr>panel_active := False\<rparr>"
proof -
  let ?p = "page_of [button ''a'']"
  have closed: "\<not> panel_active new_overlay \<and> currentPage new_overlay = None"
    by (simp add: new_overlay_def)
  have opened: "togglePanel env_500 ?p new_overlay
                  = snd (analyzeCurrentPage env_500 ?p (new_overlay\<lparr>panel_active := True\<rparr>))"
    and active: "panel_active (togglePanel env_500 ?p new_overlay)"
    using togglePanel_cases [of new_overlay env_500 ?p] closed by blast+
  have failed: "area (snd (analyzeCurrentPage env_500 ?p (new_overlay\<lparr>panel_active := True\<rparr>)))
                  = Failure_Message ''http://localhost:8000''"
    by (simp add: analyzeCurrentPage_def analyze_try_def send_500 Let_def
          new_overlay_fields env_500_fields)
  have stored: "togglePanel env_500 ?p (new_overlay\<lparr>currentPage := Some \<lparr> an_actions = None \<rparr>\<rparr>)
       = new_overlay\<lparr>currentPage := Some \<lparr> an_actions = None \<rparr>, panel_active := True\<rparr>"
    using togglePanel_cases [of "new_overlay\<lparr>currentPage := Some \<lparr> an_actions = None \<rparr>\<rparr>" env_500 ?p]
    by (simp add: new_overlay_def)
  have shown: "togglePanel env_500 ?p (new_overlay\<lparr>panel_active := True\<rparr>)
       = new_overlay\<lparr>panel_active := False\<rparr>"
    using togglePanel_cases [of "new_overlay\<lparr>panel_active := True\<rparr>" env_500 ?p]
    by simp
  show ?thesis using closed active failed stored shown by (simp add: opened)
qed

end
